theory Spec2Isabelle
  imports Main "HOL-Library.Word" "HOL-Library.AList"
begin

section \<open>Errors, headers and the codec\<close>

text \<open>
  A Go \<open>error\<close> value is kept by its text: \<open>New msg\<close> is \<open>errors.New(msg)\<close>, and
  any error whose \<open>Error()\<close> is \<open>msg\<close>.
\<close>

datatype error = New string

fun Error_text :: "error \<Rightarrow> string" where
  "Error_text (New msg) = msg"

text \<open>\<open>codec.Header\<close>: \<open>Seq\<close> is a \<open>uint64\<close>.\<close>

record Header =
  ServiceMethod :: string
  Seq :: "64 word"
  Error :: string

text \<open>
  Go values, as far as the code looks at them through \<open>reflect\<close>: a nil map and a nil
  slice differ from the empty ones, \<open>VStruct\<close> is a struct value by the name of its type
  (\<open>VStruct []\<close> is \<open>struct{}{}\<close>), \<open>VPtr a\<close> points to the address \<open>a\<close> of the memory.
  The memory is a list of values, an address being an index, so that a fresh address is
  the length of the list.
\<close>

datatype rvalue =
    VBool bool
  | VInt int
  | VString string
  | VNilInterface
  | VStruct string
  | VNilPtr
  | VPtr nat
  | VNilMap
  | VMap "(rvalue \<times> rvalue) list"
  | VNilSlice
  | VSlice "rvalue list"
  | VArray "rvalue list"
  | VNilChan

type_synonym mem = "rvalue list"

text \<open>
  \<open>Option\<close>, the record sent once before the codec is chosen, and the constants of
  \<open>server.go\<close> and \<open>codec.go\<close>.
\<close>

record Option =
  opt_MagicNumber :: int
  opt_CodecType :: string

definition MagicNumber :: int where
  "MagicNumber = 0x3bef5c"

definition GobType :: string where
  "GobType = ''application/gob''"

definition JsonType :: string where
  "JsonType = ''application/json''"

text \<open>
  \<open>DefaultOption\<close> is a package variable holding a pointer; no function of the sources assigns
  to it or writes through it (\<open>parseOptions\<close> writes to the option it was given only after it
  has returned the default for an absent one), so its value is the one of its declaration.
\<close>

definition DefaultOption :: Option where
  "DefaultOption = \<lparr>opt_MagicNumber = MagicNumber, opt_CodecType = GobType\<rparr>"

text \<open>
  The operations performed on a connection, in the order they happen. \<open>OpReadBody None\<close>
  is \<open>ReadBody(nil)\<close>, the discard target; \<open>OpReadBody (Some a)\<close> decodes into the
  destination at address \<open>a\<close>. The \<open>Option\<close> record goes over the connection as JSON,
  before a codec is there.
\<close>

datatype op =
    OpDecodeOption
  | OpEncodeOption Option
  | OpReadHeader
  | OpReadBody "nat option"
  | OpWrite Header rvalue
  | OpClose

text \<open>
  The codec is a collaborator behind the interface \<open>codec.Codec\<close> (\<open>ReadHeader\<close>,
  \<open>ReadBody\<close>, \<open>Write\<close>, \<open>Close\<close>). A connection is the script of what its reads and
  writes will answer, one entry per call, and the log of the calls made on it;
  \<open>optin\<close> is what decoding the \<open>Option\<close> record off the connection answers. A read on
  an exhausted script answers \<open>EOF\<close>, the peer having hung up; a write on an exhausted
  script succeeds.
\<close>

record Conn =
  optin :: "error + Option"
  hdrs :: "(error + Header) list"
  bodies :: "(error + rvalue) list"
  wres :: "error option list"
  oplog :: "op list"

definition EOF :: error where
  "EOF = New ''EOF''"

definition DecodeOption :: "Conn \<Rightarrow> (error + Option) \<times> Conn" where
  "DecodeOption conn = (optin conn, conn\<lparr>oplog := oplog conn @ [OpDecodeOption]\<rparr>)"

definition EncodeOption :: "Option \<Rightarrow> Conn \<Rightarrow> error option \<times> Conn" where
  "EncodeOption ov conn =
     (case wres conn of
        [] \<Rightarrow> (None, conn\<lparr>oplog := oplog conn @ [OpEncodeOption ov]\<rparr>)
      | r # rs \<Rightarrow> (r, conn\<lparr>wres := rs, oplog := oplog conn @ [OpEncodeOption ov]\<rparr>))"

definition ReadHeader :: "Conn \<Rightarrow> (error + Header) \<times> Conn" where
  "ReadHeader cc =
     (case hdrs cc of
        [] \<Rightarrow> (Inl EOF, cc\<lparr>oplog := oplog cc @ [OpReadHeader]\<rparr>)
      | r # rs \<Rightarrow> (r, cc\<lparr>hdrs := rs, oplog := oplog cc @ [OpReadHeader]\<rparr>))"

text \<open>
  \<open>ReadBody(target)\<close> decodes the next body into the target; a nil target discards it.
\<close>

definition ReadBody :: "nat option \<Rightarrow> Conn \<Rightarrow> mem \<Rightarrow> error option \<times> Conn \<times> mem" where
  "ReadBody target cc m =
     (case bodies cc of
        [] \<Rightarrow> (Some EOF, cc\<lparr>oplog := oplog cc @ [OpReadBody target]\<rparr>, m)
      | r # rs \<Rightarrow>
          (let cc' = cc\<lparr>bodies := rs, oplog := oplog cc @ [OpReadBody target]\<rparr>
           in case r of
                Inl e \<Rightarrow> (Some e, cc', m)
              | Inr v \<Rightarrow> (None, cc', case target of None \<Rightarrow> m | Some a \<Rightarrow> m[a := v])))"

definition Write :: "Header \<Rightarrow> rvalue \<Rightarrow> Conn \<Rightarrow> error option \<times> Conn" where
  "Write h b cc =
     (case wres cc of
        [] \<Rightarrow> (None, cc\<lparr>oplog := oplog cc @ [OpWrite h b]\<rparr>)
      | r # rs \<Rightarrow> (r, cc\<lparr>wres := rs, oplog := oplog cc @ [OpWrite h b]\<rparr>))"

definition Close :: "Conn \<Rightarrow> Conn" where
  "Close cc = cc\<lparr>oplog := oplog cc @ [OpClose]\<rparr>"

section \<open>Server: services and method lookup\<close>

text \<open>
  \<open>strings.LastIndex(s, ".")\<close> with a one-byte separator is the backward scan
  \<open>for i := len(s) - 1; i >= 0; i-- { if s[i] == c { return i } }; return -1\<close>.
  \<open>scan_down s c n\<close> has the indices below \<open>n\<close> left to test.
\<close>

fun scan_down :: "string \<Rightarrow> char \<Rightarrow> nat \<Rightarrow> int" where
  "scan_down s c 0 = - 1"
| "scan_down s c (Suc i) = (if s ! i = c then int i else scan_down s c i)"

definition LastIndex :: "string \<Rightarrow> char \<Rightarrow> int" where
  "LastIndex s c = scan_down s c (length s)"


text \<open>
  The types \<open>reflect\<close> speaks of. A named type carries its name and package path
  (\<open>TStruct name pkg\<close>); the builtin and the composite types have an empty package path,
  and the composite ones an empty name too. \<open>TError\<close> is the interface type \<open>error\<close>.
\<close>

datatype rtype =
    TBool
  | TInt
  | TString
  | TError
  | TStruct string string
  | TPtr rtype
  | TMap rtype rtype
  | TSlice rtype
  | TArray nat rtype
  | TChan rtype

datatype Kind =
  K_Bool | K_Int | K_String | K_Interface | K_Struct | K_Ptr | K_Map | K_Slice | K_Array | K_Chan

fun Kind_of :: "rtype \<Rightarrow> Kind" where
  "Kind_of TBool = K_Bool"
| "Kind_of TInt = K_Int"
| "Kind_of TString = K_String"
| "Kind_of TError = K_Interface"
| "Kind_of (TStruct n p) = K_Struct"
| "Kind_of (TPtr t) = K_Ptr"
| "Kind_of (TMap k v) = K_Map"
| "Kind_of (TSlice t) = K_Slice"
| "Kind_of (TArray n t) = K_Array"
| "Kind_of (TChan t) = K_Chan"

datatype panic = Panic string

text \<open>
  \<open>Type.Elem()\<close> panics unless the kind is Array, Chan, Map, Pointer or Slice.
\<close>

fun Elem :: "rtype \<Rightarrow> panic + rtype" where
  "Elem (TPtr t) = Inr t"
| "Elem (TMap k v) = Inr v"
| "Elem (TSlice t) = Inr t"
| "Elem (TArray n t) = Inr t"
| "Elem (TChan t) = Inr t"
| "Elem t = Inl (Panic ''reflect: Elem of invalid type'')"

text \<open>The zero value of a type.\<close>

fun Zero :: "rtype \<Rightarrow> rvalue" where
  "Zero TBool = VBool False"
| "Zero TInt = VInt 0"
| "Zero TString = VString []"
| "Zero TError = VNilInterface"
| "Zero (TStruct n p) = VStruct n"
| "Zero (TPtr t) = VNilPtr"
| "Zero (TMap k v) = VNilMap"
| "Zero (TSlice t) = VNilSlice"
| "Zero (TArray n t) = VArray (replicate n (Zero t))"
| "Zero (TChan t) = VNilChan"

text \<open>
  A \<open>reflect.Value\<close> as this code builds them: \<open>PtrTo t a\<close> is the value of type \<open>*t\<close>
  that \<open>reflect.New(t)\<close> returns, pointing to the address \<open>a\<close>; \<open>At t a\<close> is its
  \<open>.Elem()\<close>, the addressable value of type \<open>t\<close> stored at \<open>a\<close>.
\<close>

datatype Value = PtrTo rtype nat | At rtype nat

fun Type_of :: "Value \<Rightarrow> rtype" where
  "Type_of (PtrTo t a) = TPtr t"
| "Type_of (At t a) = t"

fun address :: "Value \<Rightarrow> nat" where
  "address (PtrTo t a) = a"
| "address (At t a) = a"

definition reflect_New :: "rtype \<Rightarrow> mem \<Rightarrow> Value \<times> mem" where
  "reflect_New t m = (PtrTo t (length m), m @ [Zero t])"

text \<open>
  \<open>methodType\<close>. Of the \<open>reflect.Method\<close> the model keeps the name and the function:
  \<open>method_Func rcvr argv reply m\<close> runs the handler on the memory \<open>m\<close> and answers the
  error it returns, if any, and the memory it leaves.
\<close>

record methodType =
  method_Name :: string
  method_Func :: "rvalue \<Rightarrow> Value \<Rightarrow> Value \<Rightarrow> mem \<Rightarrow> error option \<times> mem"
  ArgType :: rtype
  ReplyType :: rtype
  numCalls :: "64 word"

record service =
  svc_name :: string
  svc_typ :: rtype
  svc_rcvr :: rvalue
  svc_method :: "string \<rightharpoonup> methodType"

text \<open>\<open>newArgv\<close>: a pointer argument gets a new pointee, a value argument a new value.\<close>

definition newArgv :: "methodType \<Rightarrow> mem \<Rightarrow> panic + Value \<times> mem" where
  "newArgv mt m =
     (if Kind_of (ArgType mt) = K_Ptr then
        (case Elem (ArgType mt) of
           Inl p \<Rightarrow> Inl p
         | Inr t \<Rightarrow> Inr (reflect_New t m))
      else
        (case reflect_New (ArgType mt) m of
           (v, m') \<Rightarrow> Inr (At (ArgType mt) (address v), m')))"

text \<open>
  \<open>newReplyv\<close>: \<open>reflect.New(m.ReplyType.Elem())\<close>, then a map or a slice pointee is set
  to \<open>reflect.MakeMap\<close> or \<open>reflect.MakeSlice(_, 0, 0)\<close>.
\<close>

definition newReplyv :: "methodType \<Rightarrow> mem \<Rightarrow> panic + Value \<times> mem" where
  "newReplyv mt m =
     (case Elem (ReplyType mt) of
        Inl p \<Rightarrow> Inl p
      | Inr t \<Rightarrow>
          (case reflect_New t m of
             (replyv, m') \<Rightarrow>
               (case Kind_of t of
                  K_Map \<Rightarrow> Inr (replyv, m'[address replyv := VMap []])
                | K_Slice \<Rightarrow> Inr (replyv, m'[address replyv := VSlice []])
                | _ \<Rightarrow> Inr (replyv, m'))))"

text \<open>
  \<open>Type.Name()\<close> and \<open>Type.PkgPath()\<close>: a composite type has no name, and only a named
  type that is not builtin has a package path.
\<close>

fun Name_of :: "rtype \<Rightarrow> string" where
  "Name_of TBool = ''bool''"
| "Name_of TInt = ''int''"
| "Name_of TString = ''string''"
| "Name_of TError = ''error''"
| "Name_of (TStruct n p) = n"
| "Name_of t = []"

fun PkgPath :: "rtype \<Rightarrow> string" where
  "PkgPath (TStruct n p) = p"
| "PkgPath t = []"

text \<open>
  \<open>ast.IsExported\<close>: the name starts with an upper-case letter. The model knows the
  letters A to Z.
\<close>

definition IsExported :: "string \<Rightarrow> bool" where
  "IsExported name =
     (case name of
        [] \<Rightarrow> False
      | ch # _ \<Rightarrow> (of_char (CHR ''A'') :: nat) \<le> of_char ch \<and> (of_char ch :: nat) \<le> of_char (CHR ''Z''))"

definition isExportedOrBuiltinType :: "rtype \<Rightarrow> bool" where
  "isExportedOrBuiltinType t = (IsExported (Name_of t) \<or> PkgPath t = [])"

text \<open>
  A method of the receiver's type as \<open>reflect\<close> shows it: its name, the types of its
  inputs (the receiver first) and outputs, and its function.
\<close>

record reflect_Method =
  m_Name :: string
  m_In :: "rtype list"
  m_Out :: "rtype list"
  m_Func :: "rvalue \<Rightarrow> Value \<Rightarrow> Value \<Rightarrow> mem \<Rightarrow> error option \<times> mem"

text \<open>
  \<open>registerMethods\<close> over the methods of the type, in their order: a method is kept when
  it has three inputs and one output, the output is \<open>error\<close>, and the types of the
  second and third input are exported or builtin.
\<close>

fun registerMethods :: "reflect_Method list \<Rightarrow> (string \<rightharpoonup> methodType) \<Rightarrow> (string \<rightharpoonup> methodType)" where
  "registerMethods [] tab = tab"
| "registerMethods (method # rest) tab =
     (if length (m_In method) \<noteq> 3 \<or> length (m_Out method) \<noteq> 1 then registerMethods rest tab
      else if m_Out method ! 0 \<noteq> TError then registerMethods rest tab
      else
        (let argType = m_In method ! 1; replyType = m_In method ! 2 in
         if \<not> isExportedOrBuiltinType argType \<or> \<not> isExportedOrBuiltinType replyType
         then registerMethods rest tab
         else registerMethods rest
                (tab(m_Name method \<mapsto>
                   \<lparr>method_Name = m_Name method, method_Func = m_Func method,
                    ArgType = argType, ReplyType = replyType, numCalls = 0\<rparr>))))"

text \<open>\<open>Server\<close>: the \<open>sync.Map\<close> from service names to services.\<close>

type_synonym serviceMap = "string \<rightharpoonup> service"

text \<open>
  \<open>findService\<close> has the named results \<open>(svc, mtype, err)\<close>: a result left unassigned is
  nil. An unknown method leaves \<open>svc\<close> set beside the error.
\<close>

definition findService ::
  "serviceMap \<Rightarrow> string \<Rightarrow> service option \<times> methodType option \<times> error option" where
  "findService sm serviceMethod =
     (let dot = LastIndex serviceMethod (CHR ''.'') in
      if dot < 0 then
        (None, None,
         Some (New (''rpc server: service/method request ill-formed: '' @ serviceMethod)))
      else
        (let serviceName = take (nat dot) serviceMethod;
             methodName = drop (nat dot + 1) serviceMethod
         in case sm serviceName of
              None \<Rightarrow>
                (None, None, Some (New (''rpc server: can't find service'' @ serviceName)))
            | Some svc \<Rightarrow>
                (case svc_method svc methodName of
                   None \<Rightarrow>
                     (Some svc, None,
                      Some (New (''rpc server: can't find method '' @ methodName)))
                 | Some mtype \<Rightarrow> (Some svc, Some mtype, None))))"

section \<open>Server: the request pipeline\<close>

text \<open>
  \<open>request\<close>. An unset \<open>reflect.Value\<close> and a nil pointer are \<open>None\<close>.
\<close>

record request =
  req_h :: Header
  req_argv :: "Value option"
  req_replyv :: "Value option"
  req_mtype :: "methodType option"
  req_svc :: "service option"

text \<open>
  What one connection's pipeline works on: the server's service map, the codec, the
  memory, and the requests handed to \<open>go server.handleRequest\<close> that have not run yet.
\<close>

record ServerState =
  srv_serviceMap :: serviceMap
  srv_cc :: Conn
  srv_mem :: mem
  srv_spawned :: "request list"

definition invalidRequest :: rvalue where
  "invalidRequest = VStruct []"

definition readRequestHeader :: "ServerState \<Rightarrow> Header option \<times> error option \<times> ServerState" where
  "readRequestHeader s =
     (case ReadHeader (srv_cc s) of
        (Inl err, cc') \<Rightarrow> (None, Some err, s\<lparr>srv_cc := cc'\<rparr>)
      | (Inr h, cc') \<Rightarrow> (Some h, None, s\<lparr>srv_cc := cc'\<rparr>))"

text \<open>
  \<open>Value.Addr()\<close> of the addressable value at \<open>a\<close> is the pointer to \<open>a\<close>. (On a value
  that is not addressable Go panics; \<open>readRequest\<close> calls it on \<open>At\<close> values only.)
\<close>

fun Addr :: "Value \<Rightarrow> Value" where
  "Addr (At t a) = PtrTo t a"
| "Addr (PtrTo t a) = PtrTo t a"

text \<open>
  \<open>readRequest\<close> answers \<open>(req, err)\<close>; a panic of \<open>newArgv\<close> or \<open>newReplyv\<close> leaves it
  through \<open>Inl\<close>. \<open>argvi\<close> is the pointer handed to \<open>ReadBody\<close>.
\<close>

definition readRequest ::
  "ServerState \<Rightarrow> panic + (request option \<times> error option \<times> ServerState)" where
  "readRequest s =
     (case readRequestHeader s of
        (None, err, s1) \<Rightarrow> Inr (None, err, s1)
      | (Some h, _, s1) \<Rightarrow>
          (case findService (srv_serviceMap s1) (ServiceMethod h) of
             (svc, mtype, Some err) \<Rightarrow>
               Inr (Some \<lparr>req_h = h, req_argv = None, req_replyv = None,
                           req_mtype = mtype, req_svc = svc\<rparr>, Some err, s1)
           | (svc, None, None) \<Rightarrow> Inl (Panic ''nil pointer dereference'')
           | (svc, Some mt, None) \<Rightarrow>
               (case newArgv mt (srv_mem s1) of
                  Inl p \<Rightarrow> Inl p
                | Inr (argv, m1) \<Rightarrow>
                    (case newReplyv mt m1 of
                       Inl p \<Rightarrow> Inl p
                     | Inr (replyv, m2) \<Rightarrow>
                         (let req = \<lparr>req_h = h, req_argv = Some argv, req_replyv = Some replyv,
                                       req_mtype = Some mt, req_svc = svc\<rparr>;
                              argvi = (if Kind_of (Type_of argv) \<noteq> K_Ptr then Addr argv else argv)
                          in case ReadBody (Some (address argvi)) (srv_cc s1) m2 of
                               (err, cc', m3) \<Rightarrow>
                                 Inr (Some req, err, s1\<lparr>srv_cc := cc', srv_mem := m3\<rparr>))))))"

text \<open>\<open>sendResponse\<close>: the write under the send lock; a write error is only logged.\<close>

definition sendResponse :: "Header \<Rightarrow> rvalue \<Rightarrow> ServerState \<Rightarrow> ServerState" where
  "sendResponse h b s = s\<lparr>srv_cc := snd (Write h b (srv_cc s))\<rparr>"

text \<open>
  \<open>atomic.AddUint64(&m.numCalls, 1)\<close> on the shared \<open>*methodType\<close>: \<open>Register\<close> stores a
  service under its name and \<open>registerMethods\<close> a method under its name, so the pointer
  is the entry found under these two names.
\<close>

definition add_numCalls :: "string \<Rightarrow> string \<Rightarrow> serviceMap \<Rightarrow> serviceMap" where
  "add_numCalls sn mn sm =
     (case sm sn of
        None \<Rightarrow> sm
      | Some svc \<Rightarrow>
          (case svc_method svc mn of
             None \<Rightarrow> sm
           | Some m \<Rightarrow>
               sm(sn \<mapsto> svc\<lparr>svc_method := (svc_method svc)(mn \<mapsto> m\<lparr>numCalls := numCalls m + 1\<rparr>)\<rparr>)))"

text \<open>
  \<open>service.call\<close>: \<open>f.Call\<close> panics when an argument is not of the type the function
  takes.
\<close>

definition service_call ::
  "service \<Rightarrow> methodType \<Rightarrow> Value \<Rightarrow> Value \<Rightarrow> ServerState \<Rightarrow> panic + (error option \<times> ServerState)" where
  "service_call svc m argv reply s =
     (let s1 = s\<lparr>srv_serviceMap := add_numCalls (svc_name svc) (method_Name m) (srv_serviceMap s)\<rparr>
      in if Type_of argv \<noteq> ArgType m \<or> Type_of reply \<noteq> ReplyType m
         then Inl (Panic ''reflect: Call using wrong argument type'')
         else (case method_Func m (svc_rcvr svc) argv reply (srv_mem s1) of
                 (err, m') \<Rightarrow> Inr (err, s1\<lparr>srv_mem := m'\<rparr>)))"

text \<open>
  \<open>handleRequest\<close>. \<open>req.replyv.Interface()\<close> is the pointer to the reply holder.
\<close>

definition handleRequest :: "request \<Rightarrow> ServerState \<Rightarrow> panic + ServerState" where
  "handleRequest req s =
     (case (req_svc req, req_mtype req, req_argv req, req_replyv req) of
        (Some svc, Some mt, Some argv, Some replyv) \<Rightarrow>
          (case service_call svc mt argv replyv s of
             Inl p \<Rightarrow> Inl p
           | Inr (Some err, s1) \<Rightarrow>
               Inr (sendResponse ((req_h req)\<lparr>Error := Error_text err\<rparr>) invalidRequest s1)
           | Inr (None, s1) \<Rightarrow> Inr (sendResponse (req_h req) (VPtr (address replyv)) s1))
      | _ \<Rightarrow> Inl (Panic ''nil pointer dereference''))"


text \<open>
  The loop of \<open>serveCodec\<close>: it ends when no request comes back with the error, answers
  a failed request with the placeholder and goes on, and hands a good one to a new
  goroutine.
\<close>

lemma readRequest_consumes_header:
  "readRequest s = Inr (Some req, err, s') \<Longrightarrow> length (hdrs (srv_cc s')) < length (hdrs (srv_cc s))"
  by (auto simp: readRequest_def readRequestHeader_def ReadHeader_def ReadBody_def Let_def
      split: list.splits sum.splits prod.splits option.splits if_splits)

function serve_loop :: "ServerState \<Rightarrow> panic + ServerState" where
  "serve_loop s =
     (case readRequest s of
        Inl p \<Rightarrow> Inl p
      | Inr (None, err, s') \<Rightarrow> Inr s'
      | Inr (Some req, Some err, s') \<Rightarrow>
          serve_loop (sendResponse ((req_h req)\<lparr>Error := Error_text err\<rparr>) invalidRequest s')
      | Inr (Some req, None, s') \<Rightarrow> serve_loop (s'\<lparr>srv_spawned := srv_spawned s' @ [req]\<rparr>))"
  by pat_completeness auto
termination
  apply (relation "measure (\<lambda>s. length (hdrs (srv_cc s)))")
    apply simp
   apply (auto dest!: readRequest_consumes_header simp: sendResponse_def Write_def split: list.splits)
  done

declare serve_loop.simps [simp del]

text \<open>
  The handlers run beside the loop, and \<open>wg.Wait()\<close> returns when all of them have
  finished. The model runs them there, in the order they were started, which is one of
  the schedules Go allows; a handler that panics takes the process down.
\<close>

fun run_spawned :: "request list \<Rightarrow> ServerState \<Rightarrow> panic + ServerState" where
  "run_spawned [] s = Inr s"
| "run_spawned (r # rs) s =
     (case handleRequest r s of Inl p \<Rightarrow> Inl p | Inr s' \<Rightarrow> run_spawned rs s')"

definition serveCodec :: "ServerState \<Rightarrow> panic + ServerState" where
  "serveCodec s =
     (case serve_loop s of
        Inl p \<Rightarrow> Inl p
      | Inr s1 \<Rightarrow>
          (case run_spawned (srv_spawned s1) (s1\<lparr>srv_spawned := []\<rparr>) of
             Inl p \<Rightarrow> Inl p
           | Inr s2 \<Rightarrow> Inr (s2\<lparr>srv_cc := Close (srv_cc s2)\<rparr>)))"

text \<open>
  \<open>ServeConn\<close>, the same text in \<open>service/server.go\<close> and \<open>client/server.go\<close>. The map
  \<open>codec.NewCodecFuncMap\<close> from codec types to constructors is the parameter \<open>fm\<close>; a
  constructor wraps the connection into the codec that reads and writes it. The deferred
  \<open>conn.Close()\<close> runs on every return.
\<close>

definition ServeConn ::
  "(string \<rightharpoonup> (Conn \<Rightarrow> Conn)) \<Rightarrow> serviceMap \<Rightarrow> mem \<Rightarrow> Conn \<Rightarrow> panic + ServerState" where
  "ServeConn fm sm m conn =
     (case DecodeOption conn of
        (Inl err, c1) \<Rightarrow>
          Inr \<lparr>srv_serviceMap = sm, srv_cc = Close c1, srv_mem = m, srv_spawned = []\<rparr>
      | (Inr opt, c1) \<Rightarrow>
          if opt_MagicNumber opt \<noteq> MagicNumber then
            Inr \<lparr>srv_serviceMap = sm, srv_cc = Close c1, srv_mem = m, srv_spawned = []\<rparr>
          else
            (case fm (opt_CodecType opt) of
               None \<Rightarrow>
                 Inr \<lparr>srv_serviceMap = sm, srv_cc = Close c1, srv_mem = m, srv_spawned = []\<rparr>
             | Some f \<Rightarrow>
                 (case serveCodec \<lparr>srv_serviceMap = sm, srv_cc = f c1, srv_mem = m,
                                    srv_spawned = []\<rparr> of
                    Inl p \<Rightarrow> Inl p
                  | Inr s \<Rightarrow> Inr (s\<lparr>srv_cc := Close (srv_cc s)\<rparr>))))"

text \<open>
  Modelled from the spec: the gob codec's constructor \<open>NewGobCodec\<close>, which is not among
  the sources. The spec's codec factory takes a codec type and the stream and answers a
  codec; the codec of this model being the connection's script, the constructor leaves
  the connection as it is. \<open>NewCodecFuncMap\<close> is the map \<open>init()\<close> of \<open>codec.go\<close>
  fills: the gob type only.
\<close>

definition NewGobCodec :: "Conn \<Rightarrow> Conn" where
  "NewGobCodec conn = conn"

definition NewCodecFuncMap :: "string \<rightharpoonup> (Conn \<Rightarrow> Conn)" where
  "NewCodecFuncMap = [GobType \<mapsto> NewGobCodec]"

section \<open>Client: calls, the pending table, send and receive\<close>

text \<open>
  \<open>Call\<close>. \<open>Reply\<close> is nil or the pointer to the destination of the reply; \<open>Done\<close> is
  the address of the channel. A Go channel is kept as its capacity, the values sent on
  it so far, oldest first, and the number of them that have been received; its buffer
  holds the values sent and not yet received. A send goes through when the buffer has
  room, that is when fewer values have been sent than the capacity and the number of
  those received make together, and waits for a receive otherwise. (A send on an unbuffered channel goes through
  only into the hands of a receiver; the model gives it no room. \<open>Go\<close> lets no such
  channel be the \<open>Done\<close> of a call.)
\<close>

record Call =
  call_Seq :: "64 word"
  call_ServiceMethod :: string
  Args :: rvalue
  Reply :: "nat option"
  call_Error :: "error option"
  Done :: nat

record Chan =
  chan_cap :: nat
  chan_sent :: "nat list"
  chan_taken :: nat

definition chan_room :: "Chan \<Rightarrow> bool" where
  "chan_room ch \<longleftrightarrow> length (chan_sent ch) < chan_cap ch + chan_taken ch"


text \<open>
  \<open>Client\<close>, with the objects its pointers reach: the \<open>Call\<close>s and the channels (an
  address is an index of the list, a new object goes to the end) and the memory of the
  reply destinations. \<open>pending\<close> is the map \<open>map[uint64]*Call\<close> as an association list
  with distinct keys. The two mutexes are not fields: the functions below are what a
  goroutine does when it is left alone, and the section on concurrent runs interleaves
  their steps under the mutexes. A function that sends on a channel answers \<open>None\<close> when
  the goroutine is left waiting in the send.
\<close>

record Client =
  cc :: Conn
  opt :: Option
  header :: Header
  seq :: "64 word"
  pending :: "(64 word \<times> nat) list"
  closing :: bool
  shutdown :: bool
  heap_calls :: "Call list"
  heap_chans :: "Chan list"
  heap_mem :: mem

definition ErrShutdown :: error where
  "ErrShutdown = New ''connecting is shut down''"

text \<open>\<open>call.Error = e\<close> on the call at address \<open>p\<close>.\<close>

definition set_Error :: "nat \<Rightarrow> error \<Rightarrow> Client \<Rightarrow> Client" where
  "set_Error p e c = c\<lparr>heap_calls := (heap_calls c)[p := (heap_calls c ! p)\<lparr>call_Error := Some e\<rparr>]\<rparr>"

text \<open>
  \<open>call.done()\<close>: \<open>call.Done <- call\<close>, a send that waits while the buffer of the channel
  is full.
\<close>

definition done_call :: "nat \<Rightarrow> Client \<Rightarrow> Client option" where
  "done_call p c =
     (let ch = Done (heap_calls c ! p) in
      if chan_room (heap_chans c ! ch)
      then Some (c\<lparr>heap_chans :=
             (heap_chans c)[ch := (heap_chans c ! ch)\<lparr>chan_sent := chan_sent (heap_chans c ! ch) @ [p]\<rparr>]\<rparr>)
      else None)"

text \<open>
  How often the call at address \<open>p\<close> has been sent on a channel, whichever channel it
  was.
\<close>

definition signals :: "Client \<Rightarrow> nat \<Rightarrow> nat" where
  "signals c p = count_list (concat (map chan_sent (heap_chans c))) p"


text \<open>\<open>Close\<close> of the client; \<open>cc.Close()\<close> is taken to answer nil.\<close>

definition Client_Close :: "Client \<Rightarrow> error option \<times> Client" where
  "Client_Close c =
     (if closing c then (Some ErrShutdown, c)
      else (None, c\<lparr>closing := True, cc := Close (cc c)\<rparr>))"

definition IsAvailable :: "Client \<Rightarrow> bool" where
  "IsAvailable c = (\<not> shutdown c \<and> \<not> closing c)"

definition registerCall :: "nat \<Rightarrow> Client \<Rightarrow> 64 word \<times> error option \<times> Client" where
  "registerCall p c =
     (if closing c \<or> shutdown c then (0, Some ErrShutdown, c)
      else
        (let c1 = c\<lparr>heap_calls := (heap_calls c)[p := (heap_calls c ! p)\<lparr>call_Seq := seq c\<rparr>]\<rparr>;
             c2 = c1\<lparr>pending := AList.update (call_Seq (heap_calls c1 ! p)) p (pending c1)\<rparr>;
             c3 = c2\<lparr>seq := seq c2 + 1\<rparr>
         in (call_Seq (heap_calls c3 ! p), None, c3)))"

definition removeCall :: "64 word \<Rightarrow> Client \<Rightarrow> nat option \<times> Client" where
  "removeCall sq c = (map_of (pending c) sq, c\<lparr>pending := AList.delete sq (pending c)\<rparr>)"

text \<open>
  \<open>terminateCalls\<close>. Go leaves the order of \<open>range c.pending\<close> open; this function walks
  the association list from its head, and the concurrent runs take the entries in any
  order. The loop stops at the first send that has to wait, with the two mutexes held.
\<close>

fun terminate_range :: "error \<Rightarrow> (64 word \<times> nat) list \<Rightarrow> Client \<Rightarrow> Client option" where
  "terminate_range err [] c = Some c"
| "terminate_range err ((k, p) # rest) c =
     (case done_call p (set_Error p err c) of
        None \<Rightarrow> None
      | Some c' \<Rightarrow> terminate_range err rest c')"

definition terminateCalls :: "error \<Rightarrow> Client \<Rightarrow> Client option" where
  "terminateCalls err c = terminate_range err (pending c) (c\<lparr>shutdown := True\<rparr>)"

text \<open>
  The body of the loop of \<open>receive\<close> after the read of the header. \<open>receive_switch\<close> is
  the switch on the call that \<open>removeCall\<close> found, up to the \<open>call.done()\<close> that ends each
  of its two cases with a call; \<open>receive_iter\<close> is \<open>removeCall\<close>, the switch and that
  \<open>call.done()\<close>. \<open>fmt.Errorf(h.Error)\<close> uses the header's error text as a format with no
  operands; Go's rendering of a format is the parameter \<open>sprintf\<close>.
\<close>

definition client_ReadBody :: "nat option \<Rightarrow> Client \<Rightarrow> error option \<times> Client" where
  "client_ReadBody target c =
     (case ReadBody target (cc c) (heap_mem c) of
        (err, cc', m') \<Rightarrow> (err, c\<lparr>cc := cc', heap_mem := m'\<rparr>))"

definition receive_switch ::
  "(string \<Rightarrow> string) \<Rightarrow> Header \<Rightarrow> nat option \<Rightarrow> Client \<Rightarrow> error option \<times> Client" where
  "receive_switch sprintf h call c =
     (case call of
        None \<Rightarrow> client_ReadBody None c
      | Some p \<Rightarrow>
          if Error h \<noteq> [] then
            client_ReadBody None (set_Error p (New (sprintf (Error h))) c)
          else
            (case client_ReadBody (Reply (heap_calls c ! p)) c of
               (None, c') \<Rightarrow> (None, c')
             | (Some e, c') \<Rightarrow>
                 (Some e, set_Error p (New (''reading body '' @ Error_text e)) c')))"

definition receive_iter ::
  "(string \<Rightarrow> string) \<Rightarrow> Header \<Rightarrow> Client \<Rightarrow> (error option \<times> Client) option" where
  "receive_iter sprintf h c =
     (case removeCall (Seq h) c of
        (call, c1) \<Rightarrow>
          (case receive_switch sprintf h call c1 of
             (err, c2) \<Rightarrow>
               (case call of
                  None \<Rightarrow> Some (err, c2)
                | Some p \<Rightarrow>
                    (case done_call p c2 of None \<Rightarrow> None | Some c3 \<Rightarrow> Some (err, c3)))))"

lemma receive_iter_hdrs:
  "receive_iter sprintf h c = Some (err, c') \<Longrightarrow> hdrs (cc c') = hdrs (cc c)"
  by (auto simp: receive_iter_def receive_switch_def removeCall_def client_ReadBody_def
      ReadBody_def set_Error_def done_call_def Let_def
      split: option.splits if_splits prod.splits list.splits sum.splits)

function receive :: "(string \<Rightarrow> string) \<Rightarrow> Client \<Rightarrow> Client option" where
  "receive sprintf c =
     (case ReadHeader (cc c) of
        (Inl err, cc') \<Rightarrow> terminateCalls err (c\<lparr>cc := cc'\<rparr>)
      | (Inr h, cc') \<Rightarrow>
          (case receive_iter sprintf h (c\<lparr>cc := cc'\<rparr>) of
             None \<Rightarrow> None
           | Some (None, c') \<Rightarrow> receive sprintf c'
           | Some (Some err, c') \<Rightarrow> terminateCalls err c'))"
  by pat_completeness auto
termination
  apply (relation "measure (\<lambda>(sprintf, c). length (hdrs (cc c)))")
   apply simp
  apply (auto dest!: receive_iter_hdrs simp: ReadHeader_def split: list.splits)
  done

declare receive.simps [simp del]

text \<open>
  \<open>send\<close> in its parts: the registration, with the error set on the call when it is
  refused and the header made ready otherwise; the write; the removal after a failed
  write, with the error set on the call that was still in the table; and the
  \<open>call.done()\<close> that follows either error.
\<close>

definition send_register :: "nat \<Rightarrow> Client \<Rightarrow> (64 word) option \<times> Client" where
  "send_register p c =
     (case registerCall p c of
        (sq, Some err, c1) \<Rightarrow> (None, set_Error p err c1)
      | (sq, None, c1) \<Rightarrow>
          (Some sq,
           c1\<lparr>header := \<lparr>ServiceMethod = call_ServiceMethod (heap_calls c1 ! p),
                          Seq = sq, Error = []\<rparr>\<rparr>))"

definition send_write :: "nat \<Rightarrow> Client \<Rightarrow> error option \<times> Client" where
  "send_write p c =
     (case Write (header c) (Args (heap_calls c ! p)) (cc c) of
        (err, cc') \<Rightarrow> (err, c\<lparr>cc := cc'\<rparr>))"

definition send_failed :: "64 word \<Rightarrow> error \<Rightarrow> Client \<Rightarrow> nat option \<times> Client" where
  "send_failed sq err c =
     (case removeCall sq c of
        (None, c') \<Rightarrow> (None, c')
      | (Some q, c') \<Rightarrow> (Some q, set_Error q err c'))"

definition send :: "nat \<Rightarrow> Client \<Rightarrow> Client option" where
  "send p c =
     (case send_register p c of
        (None, c1) \<Rightarrow> done_call p c1
      | (Some sq, c1) \<Rightarrow>
          (case send_write p c1 of
             (None, c2) \<Rightarrow> Some c2
           | (Some err, c2) \<Rightarrow>
               (case send_failed sq err c2 of
                  (None, c3) \<Rightarrow> Some c3
                | (Some q, c3) \<Rightarrow> done_call q c3)))"

text \<open>
  \<open>Go\<close> up to the call of \<open>send\<close>: the choice of the completion channel and the new
  \<open>Call\<close>. \<open>log.Panic\<close> writes its message and panics with it. \<open>Go\<close> answers the panic,
  or the new call and the client, or \<open>None\<close> when \<open>send\<close> is left waiting.
\<close>

definition Go_alloc ::
  "string \<Rightarrow> rvalue \<Rightarrow> nat option \<Rightarrow> nat option \<Rightarrow> Client \<Rightarrow> panic + nat \<times> Client" where
  "Go_alloc serviceMethod args reply done c =
     (case (case done of
              None \<Rightarrow> Inr (length (heap_chans c),
                           c\<lparr>heap_chans := heap_chans c @
                               [\<lparr>chan_cap = 10, chan_sent = [], chan_taken = 0\<rparr>]\<rparr>)
            | Some ch \<Rightarrow>
                if chan_cap (heap_chans c ! ch) = 0
                then Inl (Panic ''rpc client: done channel is unbuffered'')
                else Inr (ch, c)) of
        Inl p \<Rightarrow> Inl p
      | Inr (ch, c1) \<Rightarrow>
          Inr (length (heap_calls c1),
               c1\<lparr>heap_calls := heap_calls c1 @
                    [\<lparr>call_Seq = 0, call_ServiceMethod = serviceMethod, Args = args,
                      Reply = reply, call_Error = None, Done = ch\<rparr>]\<rparr>))"

definition Go ::
  "string \<Rightarrow> rvalue \<Rightarrow> nat option \<Rightarrow> nat option \<Rightarrow> Client \<Rightarrow> (panic + nat \<times> Client) option" where
  "Go serviceMethod args reply done c =
     (case Go_alloc serviceMethod args reply done c of
        Inl p \<Rightarrow> Some (Inl p)
      | Inr (call, c1) \<Rightarrow>
          (case send call c1 of None \<Rightarrow> None | Some c2 \<Rightarrow> Some (Inr (call, c2))))"

text \<open>
  \<open>parseOptions\<close>. An option is a \<open>*Option\<close>, nil or a pointer; the result is the pair
  \<open>(*Option, error)\<close>. The first test, \<open>len(opts) == 0 || opts[0] == nil\<close>, is the first
  two cases. The assignments go through the caller's pointer; the model answers the
  record they leave.
\<close>

definition parseOptions :: "Option option list \<Rightarrow> Option option \<times> error option" where
  "parseOptions opts =
     (case opts of
        [] \<Rightarrow> (Some DefaultOption, None)
      | None # rest \<Rightarrow> (Some DefaultOption, None)
      | Some opt0 # rest \<Rightarrow>
          if length opts \<noteq> 1 then (None, Some (New ''number of options is more than 1''))
          else
            (let opt1 = opt0\<lparr>opt_MagicNumber := opt_MagicNumber DefaultOption\<rparr>;
                 opt2 = (if opt_CodecType opt1 = []
                         then opt1\<lparr>opt_CodecType := opt_CodecType DefaultOption\<rparr>
                         else opt1)
             in (Some opt2, None)))"

text \<open>
  \<open>newClientCodec\<close> over the channels and the memory that are there; the new client has
  made no \<open>Call\<close> yet. Its \<open>go client.receive()\<close> starts the receiving goroutine, which
  the section on concurrent runs steps.
\<close>

definition newClientCodec :: "Conn \<Rightarrow> Option \<Rightarrow> Chan list \<Rightarrow> mem \<Rightarrow> Client" where
  "newClientCodec codec ov chs m =
     \<lparr>cc = codec, opt = ov, header = \<lparr>ServiceMethod = [], Seq = 0, Error = []\<rparr>, seq = 1,
      pending = [], closing = False, shutdown = False,
      heap_calls = [], heap_chans = chs, heap_mem = m\<rparr>"

text \<open>
  \<open>NewClient\<close> answers \<open>(*Client, error)\<close>; the third component is the connection as
  the call leaves it.
\<close>

definition NewClient ::
  "(string \<rightharpoonup> (Conn \<Rightarrow> Conn)) \<Rightarrow> Conn \<Rightarrow> Option \<Rightarrow> Chan list \<Rightarrow> mem
     \<Rightarrow> Client option \<times> error option \<times> Conn" where
  "NewClient fm conn ov chs m =
     (case fm (opt_CodecType ov) of
        None \<Rightarrow> (None, Some (New (''invalid codec type '' @ opt_CodecType ov)), conn)
      | Some f \<Rightarrow>
          (case EncodeOption ov conn of
             (Some err, conn') \<Rightarrow> (None, Some err, Close conn')
           | (None, conn') \<Rightarrow> (Some (newClientCodec (f conn') ov chs m), None, conn')))"

text \<open>
  \<open>Dial\<close>. What \<open>net.Dial\<close> answers is the parameter \<open>dialed\<close>. \<open>parseOptions\<close> never
  answers two nils, so the second case is not met. The deferred function
  closes the connection when the error result is set.
\<close>

definition Dial ::
  "(string \<rightharpoonup> (Conn \<Rightarrow> Conn)) \<Rightarrow> error + Conn \<Rightarrow> Option option list \<Rightarrow> Chan list \<Rightarrow> mem
     \<Rightarrow> Client option \<times> error option \<times> Conn option" where
  "Dial fm dialed opts chs m =
     (case parseOptions opts of
        (_, Some err) \<Rightarrow> (None, Some err, None)
      | (None, None) \<Rightarrow> (None, None, None)
      | (Some ov, None) \<Rightarrow>
          (case dialed of
             Inl err \<Rightarrow> (None, Some err, None)
           | Inr conn \<Rightarrow>
               (case NewClient fm conn ov chs m of
                  (client, Some err, conn') \<Rightarrow> (client, Some err, Some (Close conn'))
                | (client, None, conn') \<Rightarrow> (client, None, Some conn'))))"

section \<open>Client: concurrent runs\<close>

text \<open>
  The goroutines of one client, stepped one at a time. The receiving goroutine is
  before \<open>ReadHeader\<close>; before \<open>removeCall\<close> with the header read; before the switch with
  the call that \<open>removeCall\<close> found; in the \<open>call.done()\<close> of the switch, with the error
  that the turn ends with; before \<open>terminateCalls\<close> with the error that ended the loop;
  in \<open>terminateCalls\<close> with the two mutexes held, either about to take one of the
  entries of the table it has not visited yet, or in the \<open>call.done()\<close> of the entry it
  has taken; or done. The mutex \<open>sending\<close> is held by one caller of \<open>send\<close> at most, which
  is before the write with its call registered, or before the \<open>removeCall\<close> that follows
  a failed write, or in \<open>call.done()\<close>; \<open>SendIdle\<close> says that no caller of \<open>send\<close> holds it.
\<close>

datatype recv_pc =
    RecvHeader
  | RecvRemove Header
  | RecvSwitch Header "nat option"
  | RecvSignal nat "error option"
  | RecvTerminate error
  | RecvRange error "(64 word \<times> nat) list"
  | RecvRangeSignal error nat "(64 word \<times> nat) list"
  | RecvDone

datatype send_pc = SendIdle | SendWrite nat "64 word" | SendFailed "64 word" error | SendSignal nat

record System =
  sys_client :: Client
  sys_recv :: recv_pc
  sys_sender :: send_pc

text \<open>\<open>terminateCalls\<close> holds \<open>sending\<close> and \<open>mu\<close> from its start to its return.\<close>

fun in_range :: "recv_pc \<Rightarrow> bool" where
  "in_range (RecvRange err todo) = True"
| "in_range (RecvRangeSignal err p todo) = True"
| "in_range _ = False"

text \<open>
  Where the receiving goroutine goes after a turn of its loop, \<open>for err == nil\<close>, and
  after an entry of the table in \<open>terminateCalls\<close>, which returns when none is left.
\<close>

fun after_turn :: "error option \<Rightarrow> recv_pc" where
  "after_turn None = RecvHeader"
| "after_turn (Some err) = RecvTerminate err"

fun after_entry :: "error \<Rightarrow> (64 word \<times> nat) list \<Rightarrow> recv_pc" where
  "after_entry err [] = RecvDone"
| "after_entry err (x # xs) = RecvRange err (x # xs)"

text \<open>
  A receive from the channel at \<open>ch\<close> by its user, as in \<open>Call\<close>, which receives from
  the \<open>Done\<close> of the call that \<open>Go\<close> has answered: the oldest value of the buffer leaves it.
\<close>

definition chan_take :: "nat \<Rightarrow> Client \<Rightarrow> Client option" where
  "chan_take ch c =
     (if ch < length (heap_chans c)
         \<and> chan_taken (heap_chans c ! ch) < length (chan_sent (heap_chans c ! ch))
      then Some (c\<lparr>heap_chans :=
             (heap_chans c)[ch := (heap_chans c ! ch)\<lparr>chan_taken := Suc (chan_taken (heap_chans c ! ch))\<rparr>]\<rparr>)
      else None)"

text \<open>
  The steps. Each is a stretch of code that runs under the mutex \<open>mu\<close>, or touches only
  the codec, or only a call that its goroutine has taken out of the table, or is one
  send on a channel. \<open>EvGo\<close> is a call of \<open>Go\<close> up to the end of \<open>registerCall\<close> and the
  assignments that follow it, taken when the caller gets \<open>sending\<close>; \<open>EvWrite\<close> is the
  write of \<open>send\<close>; \<open>EvWriteFailed\<close> is the \<open>removeCall\<close> of \<open>send\<close> after a failed write,
  with the error set on the call found; \<open>EvSendDone\<close> is the \<open>call.done()\<close> of \<open>send\<close>, after
  which \<open>send\<close> returns. \<open>EvReadHeader\<close>, \<open>EvRemove\<close>, \<open>EvSwitch\<close> and \<open>EvRecvDone\<close> are one
  turn of the loop of \<open>receive\<close>, the last being the \<open>call.done()\<close> of the switch.
  \<open>EvTerminate\<close> is the start of \<open>terminateCalls\<close>, which waits for \<open>sending\<close>, takes \<open>mu\<close>
  and sets \<open>shutdown\<close>; \<open>EvRange k\<close> takes the entry of the key \<open>k\<close> as the next of the
  range, in whatever order, and sets the error on its call; \<open>EvRecvDone\<close> is the
  \<open>call.done()\<close> of that entry too, after the last of which \<open>terminateCalls\<close> returns.
  \<open>EvClose\<close> is \<open>Close\<close>, which takes \<open>mu\<close>; \<open>EvTake ch\<close> is a receive from the channel at
  \<open>ch\<close> by its user.
\<close>

datatype event =
    EvGo string rvalue "nat option" "nat option"
  | EvWrite
  | EvWriteFailed
  | EvSendDone
  | EvReadHeader
  | EvRemove
  | EvSwitch
  | EvRecvDone
  | EvTerminate
  | EvRange "64 word"
  | EvClose
  | EvTake nat

text \<open>
  \<open>step\<close> answers \<open>None\<close> for an event that cannot happen in the state: the goroutine
  is elsewhere, the mutex is held, the send has to wait, \<open>Go\<close> panics, the channel handed
  to \<open>Go\<close> is not there, or there is nothing to receive.
\<close>

fun step :: "(string \<Rightarrow> string) \<Rightarrow> event \<Rightarrow> System \<Rightarrow> System option" where
  "step sprintf (EvGo serviceMethod args reply done) s =
     (if sys_sender s \<noteq> SendIdle \<or> in_range (sys_recv s) then None
      else if (case done of None \<Rightarrow> False | Some ch \<Rightarrow> length (heap_chans (sys_client s)) \<le> ch)
      then None
      else
        (case Go_alloc serviceMethod args reply done (sys_client s) of
           Inl pn \<Rightarrow> None
         | Inr (p, c1) \<Rightarrow>
             (case send_register p c1 of
                (None, c2) \<Rightarrow> Some (s\<lparr>sys_client := c2, sys_sender := SendSignal p\<rparr>)
              | (Some sq, c2) \<Rightarrow> Some (s\<lparr>sys_client := c2, sys_sender := SendWrite p sq\<rparr>))))"
| "step sprintf EvWrite s =
     (case sys_sender s of
        SendWrite p sq \<Rightarrow>
          (case send_write p (sys_client s) of
             (None, c') \<Rightarrow> Some (s\<lparr>sys_client := c', sys_sender := SendIdle\<rparr>)
           | (Some err, c') \<Rightarrow> Some (s\<lparr>sys_client := c', sys_sender := SendFailed sq err\<rparr>))
      | _ \<Rightarrow> None)"
| "step sprintf EvWriteFailed s =
     (case sys_sender s of
        SendFailed sq err \<Rightarrow>
          (case send_failed sq err (sys_client s) of
             (None, c') \<Rightarrow> Some (s\<lparr>sys_client := c', sys_sender := SendIdle\<rparr>)
           | (Some q, c') \<Rightarrow> Some (s\<lparr>sys_client := c', sys_sender := SendSignal q\<rparr>))
      | _ \<Rightarrow> None)"
| "step sprintf EvSendDone s =
     (case sys_sender s of
        SendSignal p \<Rightarrow>
          (case done_call p (sys_client s) of
             None \<Rightarrow> None
           | Some c' \<Rightarrow> Some (s\<lparr>sys_client := c', sys_sender := SendIdle\<rparr>))
      | _ \<Rightarrow> None)"
| "step sprintf EvReadHeader s =
     (case sys_recv s of
        RecvHeader \<Rightarrow>
          (case ReadHeader (cc (sys_client s)) of
             (Inl err, cc') \<Rightarrow>
               Some (s\<lparr>sys_client := (sys_client s)\<lparr>cc := cc'\<rparr>, sys_recv := RecvTerminate err\<rparr>)
           | (Inr h, cc') \<Rightarrow>
               Some (s\<lparr>sys_client := (sys_client s)\<lparr>cc := cc'\<rparr>, sys_recv := RecvRemove h\<rparr>))
      | _ \<Rightarrow> None)"
| "step sprintf EvRemove s =
     (case sys_recv s of
        RecvRemove h \<Rightarrow>
          (case removeCall (Seq h) (sys_client s) of
             (found, c') \<Rightarrow> Some (s\<lparr>sys_client := c', sys_recv := RecvSwitch h found\<rparr>))
      | _ \<Rightarrow> None)"
| "step sprintf EvSwitch s =
     (case sys_recv s of
        RecvSwitch h found \<Rightarrow>
          (case receive_switch sprintf h found (sys_client s) of
             (err, c') \<Rightarrow>
               Some (s\<lparr>sys_client := c',
                       sys_recv := (case found of None \<Rightarrow> after_turn err
                                    | Some p \<Rightarrow> RecvSignal p err)\<rparr>))
      | _ \<Rightarrow> None)"
| "step sprintf EvRecvDone s =
     (case sys_recv s of
        RecvSignal p err \<Rightarrow>
          (case done_call p (sys_client s) of
             None \<Rightarrow> None
           | Some c' \<Rightarrow> Some (s\<lparr>sys_client := c', sys_recv := after_turn err\<rparr>))
      | RecvRangeSignal err p todo \<Rightarrow>
          (case done_call p (sys_client s) of
             None \<Rightarrow> None
           | Some c' \<Rightarrow> Some (s\<lparr>sys_client := c', sys_recv := after_entry err todo\<rparr>))
      | _ \<Rightarrow> None)"
| "step sprintf EvTerminate s =
     (case sys_recv s of
        RecvTerminate err \<Rightarrow>
          (if sys_sender s \<noteq> SendIdle then None
           else Some (s\<lparr>sys_client := (sys_client s)\<lparr>shutdown := True\<rparr>,
                        sys_recv := after_entry err (pending (sys_client s))\<rparr>))
      | _ \<Rightarrow> None)"
| "step sprintf (EvRange k) s =
     (case sys_recv s of
        RecvRange err todo \<Rightarrow>
          (case map_of todo k of
             None \<Rightarrow> None
           | Some p \<Rightarrow>
               Some (s\<lparr>sys_client := set_Error p err (sys_client s),
                       sys_recv := RecvRangeSignal err p (AList.delete k todo)\<rparr>))
      | _ \<Rightarrow> None)"
| "step sprintf EvClose s =
     (if in_range (sys_recv s) then None
      else Some (s\<lparr>sys_client := snd (Client_Close (sys_client s))\<rparr>))"
| "step sprintf (EvTake ch) s =
     (case chan_take ch (sys_client s) of
        None \<Rightarrow> None
      | Some c' \<Rightarrow> Some (s\<lparr>sys_client := c'\<rparr>))"

fun run :: "(string \<Rightarrow> string) \<Rightarrow> event list \<Rightarrow> System \<Rightarrow> System option" where
  "run sprintf [] s = Some s"
| "run sprintf (e # es) s =
     (case step sprintf e s of None \<Rightarrow> None | Some s' \<Rightarrow> run sprintf es s')"

text \<open>The system that \<open>newClientCodec\<close> starts.\<close>

definition new_system :: "Conn \<Rightarrow> Option \<Rightarrow> Chan list \<Rightarrow> mem \<Rightarrow> System" where
  "new_system codec ov chs m =
     \<lparr>sys_client = newClientCodec codec ov chs m, sys_recv = RecvHeader, sys_sender = SendIdle\<rparr>"

text \<open>
  The steps of the client's own goroutines, as against those of its user (\<open>EvGo\<close>,
  \<open>EvClose\<close>, \<open>EvTake\<close>).
\<close>

fun own_event :: "event \<Rightarrow> bool" where
  "own_event (EvGo serviceMethod args reply done) = False"
| "own_event EvClose = False"
| "own_event (EvTake ch) = False"
| "own_event _ = True"

section \<open>Example values\<close>

text \<open>A service \<open>Foo\<close> with the method \<open>Sum\<close>, whose handler leaves the memory as it is.\<close>

definition Foo_Sum :: methodType where
  "Foo_Sum = \<lparr>method_Name = ''Sum'', method_Func = (\<lambda>rcvr argv reply m. (None, m)),
              ArgType = TInt, ReplyType = TPtr TInt, numCalls = 0\<rparr>"

definition Foo :: service where
  "Foo = \<lparr>svc_name = ''Foo'', svc_typ = TStruct ''Foo'' ''main'', svc_rcvr = VStruct ''Foo'',
          svc_method = [''Sum'' \<mapsto> Foo_Sum]\<rparr>"

text \<open>A connection on which nothing has happened and nothing will arrive.\<close>

definition conn0 :: Conn where
  "conn0 = \<lparr>optin = Inr DefaultOption, hdrs = [], bodies = [], wres = [], oplog = []\<rparr>"

text \<open>
  A new client over two channels, the first unbuffered and the second with one slot, and
  one reply destination.
\<close>

definition client0 :: Client where
  "client0 = newClientCodec conn0 DefaultOption
     [\<lparr>chan_cap = 0, chan_sent = [], chan_taken = 0\<rparr>,
      \<lparr>chan_cap = 1, chan_sent = [], chan_taken = 0\<rparr>] [VInt 0]"



text \<open>
  Three headers for that client: the answer to its request, an answer carrying an error
  text, and a header whose sequence number no call waits for.
\<close>

definition hdr_ok :: Header where
  "hdr_ok = \<lparr>ServiceMethod = ''Foo.Sum'', Seq = 1, Error = []\<rparr>"



text \<open>
  Two methods of a receiver type, as \<open>reflect\<close> shows them:
  \<open>func (f Foo) Sum(arg int, reply *int) error\<close> and
  \<open>func (f Foo) Bad(arg int, reply int) error\<close>.
\<close>

definition method_Sum :: reflect_Method where
  "method_Sum = \<lparr>m_Name = ''Sum'', m_In = [TStruct ''Foo'' ''main'', TInt, TPtr TInt],
                 m_Out = [TError], m_Func = (\<lambda>rcvr argv reply m. (None, m))\<rparr>"

definition method_Bad :: reflect_Method where
  "method_Bad = \<lparr>m_Name = ''Bad'', m_In = [TStruct ''Foo'' ''main'', TInt, TInt],
                 m_Out = [TError], m_Func = (\<lambda>rcvr argv reply m. (None, m))\<rparr>"



text \<open>
  A run of a new client: one request is sent, its answer arrives and is delivered, and
  the peer hangs up.
\<close>

definition run1_start :: System where
  "run1_start = new_system (conn0\<lparr>hdrs := [Inr hdr_ok], bodies := [Inr (VInt 7)]\<rparr>) DefaultOption [] [VInt 0]"

definition run1_events :: "event list" where
  "run1_events =
     [EvGo ''Foo.Sum'' (VInt 3) (Some 0) None, EvWrite, EvReadHeader, EvRemove, EvSwitch,
      EvRecvDone, EvReadHeader, EvTerminate]"




text \<open>
  A run of a new client whose user hands the same channel, with one slot, to two calls
  of \<open>Go\<close> and receives nothing from it: both requests are written, the peer hangs up,
  and \<open>terminateCalls\<close> takes the two entries of the table in turn.
\<close>

definition run2_start :: System where
  "run2_start = new_system conn0 DefaultOption [\<lparr>chan_cap = 1, chan_sent = [], chan_taken = 0\<rparr>] []"

definition run2_events :: "event list" where
  "run2_events =
     [EvGo ''Foo.Sum'' (VInt 3) None (Some 0), EvWrite,
      EvGo ''Foo.Sum'' (VInt 4) None (Some 0), EvWrite,
      EvReadHeader, EvTerminate, EvRange 1, EvRecvDone, EvRange 2]"

text \<open>
  The client of that run when both requests are written, and the system where the run
  ends: \<open>terminateCalls\<close> has signalled the first call and is in the \<open>call.done()\<close> of the
  second.
\<close>

definition client2 :: Client where
  "client2 =
     \<lparr>cc = conn0\<lparr>oplog :=
             [OpWrite \<lparr>ServiceMethod = ''Foo.Sum'', Seq = 1, Error = []\<rparr> (VInt 3),
              OpWrite \<lparr>ServiceMethod = ''Foo.Sum'', Seq = 2, Error = []\<rparr> (VInt 4)]\<rparr>,
      opt = DefaultOption, header = \<lparr>ServiceMethod = ''Foo.Sum'', Seq = 2, Error = []\<rparr>,
      seq = 3, pending = [(1, 0), (2, 1)], closing = False, shutdown = False,
      heap_calls = [\<lparr>call_Seq = 1, call_ServiceMethod = ''Foo.Sum'', Args = VInt 3,
                     Reply = None, call_Error = None, Done = 0\<rparr>,
                    \<lparr>call_Seq = 2, call_ServiceMethod = ''Foo.Sum'', Args = VInt 4,
                     Reply = None, call_Error = None, Done = 0\<rparr>],
      heap_chans = [\<lparr>chan_cap = 1, chan_sent = [], chan_taken = 0\<rparr>], heap_mem = []\<rparr>"

definition run2_stuck :: System where
  "run2_stuck =
     \<lparr>sys_client = client2
        \<lparr>cc := (cc client2)\<lparr>oplog := oplog (cc client2) @ [OpReadHeader]\<rparr>,
         shutdown := True,
         heap_calls := map (\<lambda>cl. cl\<lparr>call_Error := Some EOF\<rparr>) (heap_calls client2),
         heap_chans := [\<lparr>chan_cap = 1, chan_sent = [0], chan_taken = 0\<rparr>]\<rparr>,
      sys_recv = RecvRangeSignal EOF 1 [], sys_sender = SendIdle\<rparr>"

section \<open>Method lookup\<close>

lemma scan_down_none: "n \<le> length s \<Longrightarrow> c \<notin> set (take n s) \<Longrightarrow> scan_down s c n = - 1"
  by (induction n) (auto simp: take_Suc_conv_app_nth)

lemma scan_down_last:
  "c \<notin> set b \<Longrightarrow> k \<le> length b \<Longrightarrow> scan_down (a @ c # b) c (Suc (length a + k)) = int (length a)"
  by (induction k) (auto simp: nth_append)

lemma LastIndex_none: "c \<notin> set s \<Longrightarrow> LastIndex s c = - 1"
  by (simp add: LastIndex_def scan_down_none)

lemma LastIndex_last: "c \<notin> set b \<Longrightarrow> LastIndex (a @ c # b) c = int (length a)"
  using scan_down_last [of c b "length b" a] by (simp add: LastIndex_def)

text \<open>
  C5. \<open>findService\<close> splits the name at its last dot. A name with no dot is answered
  with the ill-formed error. A name \<open>sn.mn\<close>, \<open>mn\<close> holding no dot, is answered with the
  can't-find-service error when \<open>sn\<close> is not registered, with the can't-find-method
  error when the service \<open>sn\<close> has no method \<open>mn\<close>, and with the service and the method
  otherwise.
\<close>

theorem findService_last_dot:
  "(CHR ''.'' \<notin> set serviceMethod \<longrightarrow>
      findService sm serviceMethod =
        (None, None,
         Some (New (''rpc server: service/method request ill-formed: '' @ serviceMethod))))
   \<and> (\<forall>sn mn. serviceMethod = sn @ ''.'' @ mn \<and> CHR ''.'' \<notin> set mn \<longrightarrow>
          findService sm serviceMethod =
            (case sm sn of
               None \<Rightarrow> (None, None, Some (New (''rpc server: can't find service'' @ sn)))
             | Some svc \<Rightarrow>
                 (case svc_method svc mn of
                    None \<Rightarrow> (Some svc, None, Some (New (''rpc server: can't find method '' @ mn)))
                  | Some mtype \<Rightarrow> (Some svc, Some mtype, None))))"
proof (intro conjI impI allI)
  assume "CHR ''.'' \<notin> set serviceMethod"
  then show "findService sm serviceMethod =
      (None, None, Some (New (''rpc server: service/method request ill-formed: '' @ serviceMethod)))"
    by (simp add: findService_def LastIndex_none)
next
  fix sn mn
  assume a: "serviceMethod = sn @ ''.'' @ mn \<and> CHR ''.'' \<notin> set mn"
  then have "LastIndex serviceMethod (CHR ''.'') = int (length sn)"
    using LastIndex_last [of "CHR ''.''" mn sn] by simp
  with a show "findService sm serviceMethod =
      (case sm sn of
         None \<Rightarrow> (None, None, Some (New (''rpc server: can't find service'' @ sn)))
       | Some svc \<Rightarrow>
           (case svc_method svc mn of
              None \<Rightarrow> (Some svc, None, Some (New (''rpc server: can't find method '' @ mn)))
            | Some mtype \<Rightarrow> (Some svc, Some mtype, None)))"
    by (simp add: findService_def Let_def)
qed

theorem findService_last_dot_witness:
  "findService [''Foo'' \<mapsto> Foo] ''NoDotHere'' =
     (None, None, Some (New ''rpc server: service/method request ill-formed: NoDotHere''))
   \<and> findService [''Foo'' \<mapsto> Foo] ''Foo.Sum'' = (Some Foo, Some Foo_Sum, None)
   \<and> findService [''Foo'' \<mapsto> Foo] ''Foo.Missing'' =
       (Some Foo, None, Some (New ''rpc server: can't find method Missing''))
   \<and> findService [''Foo'' \<mapsto> Foo] ''a.b.Sum'' =
       (None, None, Some (New ''rpc server: can't find servicea.b''))"
  using findService_last_dot [of "''NoDotHere''" "[''Foo'' \<mapsto> Foo]"]
    findService_last_dot [of "''Foo.Sum''" "[''Foo'' \<mapsto> Foo]", THEN conjunct2, rule_format, of "''Foo''" "''Sum''"]
    findService_last_dot [of "''Foo.Missing''" "[''Foo'' \<mapsto> Foo]", THEN conjunct2, rule_format, of "''Foo''" "''Missing''"]
    findService_last_dot [of "''a.b.Sum''" "[''Foo'' \<mapsto> Foo]", THEN conjunct2, rule_format, of "''a.b''" "''Sum''"]
  by (simp add: Foo_def)


section \<open>The request pipeline\<close>

lemma Addr_address [simp]: "address (Addr v) = address v"
  by (cases v) simp_all











section \<open>The handshake\<close>

text \<open>
  C6. When the \<open>Option\<close> decoded in the handshake has another magic number than the
  constant, or a codec type with no constructor in the map, \<open>ServeConn\<close> does two things
  on the connection and no more: the decoding of the \<open>Option\<close> and the close. No header
  is read, nothing is written, and nothing of what the connection would deliver is
  consumed.
\<close>

theorem ServeConn_rejects:
  assumes "optin conn = Inr ov"
    and "opt_MagicNumber ov \<noteq> MagicNumber \<or> fm (opt_CodecType ov) = None"
  shows "ServeConn fm sm m conn =
      Inr \<lparr>srv_serviceMap = sm, srv_cc = conn\<lparr>oplog := oplog conn @ [OpDecodeOption, OpClose]\<rparr>,
           srv_mem = m, srv_spawned = []\<rparr>"
  using assms by (auto simp: ServeConn_def DecodeOption_def Close_def)


theorem ServeConn_rejects_witness:
  "optin (conn0\<lparr>optin := Inr \<lparr>opt_MagicNumber = 1, opt_CodecType = GobType\<rparr>\<rparr>)
     = Inr \<lparr>opt_MagicNumber = 1, opt_CodecType = GobType\<rparr>
   \<and> opt_MagicNumber \<lparr>opt_MagicNumber = 1, opt_CodecType = GobType\<rparr> \<noteq> MagicNumber
   \<and> ServeConn NewCodecFuncMap [''Foo'' \<mapsto> Foo] []
         (conn0\<lparr>optin := Inr \<lparr>opt_MagicNumber = 1, opt_CodecType = GobType\<rparr>\<rparr>)
       = Inr \<lparr>srv_serviceMap = [''Foo'' \<mapsto> Foo],
              srv_cc = conn0\<lparr>optin := Inr \<lparr>opt_MagicNumber = 1, opt_CodecType = GobType\<rparr>,
                             oplog := [OpDecodeOption, OpClose]\<rparr>,
              srv_mem = [], srv_spawned = []\<rparr>
   \<and> optin (conn0\<lparr>optin := Inr \<lparr>opt_MagicNumber = MagicNumber, opt_CodecType = JsonType\<rparr>\<rparr>)
     = Inr \<lparr>opt_MagicNumber = MagicNumber, opt_CodecType = JsonType\<rparr>
   \<and> NewCodecFuncMap (opt_CodecType \<lparr>opt_MagicNumber = MagicNumber, opt_CodecType = JsonType\<rparr>) = None
   \<and> ServeConn NewCodecFuncMap [''Foo'' \<mapsto> Foo] []
         (conn0\<lparr>optin := Inr \<lparr>opt_MagicNumber = MagicNumber, opt_CodecType = JsonType\<rparr>\<rparr>)
       = Inr \<lparr>srv_serviceMap = [''Foo'' \<mapsto> Foo],
              srv_cc = conn0\<lparr>optin := Inr \<lparr>opt_MagicNumber = MagicNumber, opt_CodecType = JsonType\<rparr>,
                             oplog := [OpDecodeOption, OpClose]\<rparr>,
              srv_mem = [], srv_spawned = []\<rparr>"
  using
    ServeConn_rejects [of "conn0\<lparr>optin := Inr \<lparr>opt_MagicNumber = 1, opt_CodecType = GobType\<rparr>\<rparr>"
      "\<lparr>opt_MagicNumber = 1, opt_CodecType = GobType\<rparr>" NewCodecFuncMap "[''Foo'' \<mapsto> Foo]" "[]"]
    ServeConn_rejects [of "conn0\<lparr>optin := Inr \<lparr>opt_MagicNumber = MagicNumber, opt_CodecType = JsonType\<rparr>\<rparr>"
      "\<lparr>opt_MagicNumber = MagicNumber, opt_CodecType = JsonType\<rparr>" NewCodecFuncMap "[''Foo'' \<mapsto> Foo]" "[]"]
  by (simp add: conn0_def MagicNumber_def NewCodecFuncMap_def GobType_def JsonType_def)

section \<open>Reply holders\<close>

text \<open>
  For a reply type that is a pointer type, \<open>newReplyv\<close> answers a pointer to a new
  address holding the zero value of the pointee type, or the empty map or the empty
  slice when the pointee is a map or a slice: never the nil map or the nil slice.
\<close>

lemma newReplyv_pointer_reply:
  assumes "ReplyType mt = TPtr t"
  shows "newReplyv mt m =
      Inr (PtrTo t (length m),
           m @ [if Kind_of t = K_Map then VMap [] else if Kind_of t = K_Slice then VSlice [] else Zero t])"
  using assms by (auto simp: newReplyv_def reflect_New_def split: Kind.splits)

lemma newReplyv_no_nil_holder:
  assumes "ReplyType mt = TPtr t" "Kind_of t = K_Map \<or> Kind_of t = K_Slice"
    and "newReplyv mt m = Inr (replyv, m')"
  shows "m' ! address replyv \<noteq> VNilMap \<and> m' ! address replyv \<noteq> VNilSlice"
  using assms by (auto simp: newReplyv_pointer_reply)

text \<open>
  C10 does not hold of every method handle. \<open>registerMethods\<close> admits the method
  \<open>func (f Foo) Bad(arg int, reply int) error\<close>, whose reply type is no pointer type, and
  \<open>newReplyv\<close> on its handle panics in \<open>Type.Elem()\<close>.
\<close>

theorem newReplyv_value_reply_panics:
  "registerMethods [method_Sum, method_Bad] Map.empty ''Bad''
     = Some \<lparr>method_Name = ''Bad'', method_Func = m_Func method_Bad, ArgType = TInt,
             ReplyType = TInt, numCalls = 0\<rparr>
   \<and> newReplyv \<lparr>method_Name = ''Bad'', method_Func = m_Func method_Bad, ArgType = TInt,
                 ReplyType = TInt, numCalls = 0\<rparr> []
     = Inl (Panic ''reflect: Elem of invalid type'')"
  by (simp add: method_Sum_def method_Bad_def isExportedOrBuiltinType_def newReplyv_def)

section \<open>Options and dialling\<close>

lemma parseOptions_magic:
  "parseOptions opts = (Some ov, err) \<Longrightarrow> opt_MagicNumber ov = MagicNumber"
  by (auto simp: parseOptions_def DefaultOption_def Let_def split: list.splits option.splits if_splits)

text \<open>
  What \<open>parseOptions\<close> does with the options it is given. No option gives the default
  \<open>Option\<close>. One option that is not nil comes back with the magic number of the default
  and, when its codec type is empty, the gob type. A first option that is not nil,
  followed by more, gives the error.
\<close>

lemma parseOptions_none: "parseOptions [] = (Some DefaultOption, None)"
  by (simp add: parseOptions_def)

lemma parseOptions_one_nil: "parseOptions [None] = (Some DefaultOption, None)"
  by (simp add: parseOptions_def)

lemma parseOptions_one:
  "parseOptions [Some ov] =
     (Some \<lparr>opt_MagicNumber = MagicNumber,
            opt_CodecType = (if opt_CodecType ov = [] then GobType else opt_CodecType ov)\<rparr>, None)"
  by (cases ov) (simp add: parseOptions_def DefaultOption_def)

lemma parseOptions_more:
  "parseOptions (Some ov # x # rest) = (None, Some (New ''number of options is more than 1''))"
  by (simp add: parseOptions_def)

text \<open>
  A client that \<open>Dial\<close> makes has sent exactly one \<open>Option\<close>, with the magic constant, on
  its connection.
\<close>

lemma Dial_magic:
  assumes d: "Dial fm dialed opts chs m = (Some client, e, Some conn')"
  shows "opt_MagicNumber (opt client) = MagicNumber"
    "\<exists>conn. dialed = Inr conn \<and> oplog conn' = oplog conn @ [OpEncodeOption (opt client)]"
proof -
  from d obtain ov where po: "parseOptions opts = (Some ov, None)"
    by (auto simp: Dial_def split: prod.splits option.splits)
  from d po obtain conn where c: "dialed = Inr conn"
    by (auto simp: Dial_def split: sum.splits)
  from d po c have n: "NewClient fm conn ov chs m = (Some client, None, conn')"
    by (auto simp: Dial_def NewClient_def split: prod.splits option.splits)
  then have o: "opt client = ov" and l: "oplog conn' = oplog conn @ [OpEncodeOption ov]"
    by (auto simp: NewClient_def newClientCodec_def EncodeOption_def
        split: option.splits prod.splits list.splits)
  from po have "opt_MagicNumber ov = MagicNumber"
    by (rule parseOptions_magic)
  with o show "opt_MagicNumber (opt client) = MagicNumber"
    by simp
  from c o l show "\<exists>conn. dialed = Inr conn \<and> oplog conn' = oplog conn @ [OpEncodeOption (opt client)]"
    by simp
qed

text \<open>
  C9 fails where it says that more than one option returns an error. \<open>parseOptions\<close>
  refuses more than one option with the error \<open>number of options is more than 1\<close>, and
  does so for two options of which the second is nil; but its test for a nil first
  option comes before the count, so two or more options of which the first is nil are
  taken for none: the default \<open>Option\<close> comes back with no error, and the options after
  the first are dropped.
\<close>

theorem parseOptions_nil_first_accepted:
  "parseOptions (None # x # rest) = (Some DefaultOption, None)
   \<and> parseOptions (Some ov # None # rest) = (None, Some (New ''number of options is more than 1''))
   \<and> parseOptions [None, Some \<lparr>opt_MagicNumber = 5, opt_CodecType = JsonType\<rparr>]
       = (Some \<lparr>opt_MagicNumber = MagicNumber, opt_CodecType = GobType\<rparr>, None)
   \<and> parseOptions [Some \<lparr>opt_MagicNumber = 5, opt_CodecType = JsonType\<rparr>, None]
       = (None, Some (New ''number of options is more than 1''))"
  by (simp add: parseOptions_def DefaultOption_def)


section \<open>Client: what each operation leaves alone\<close>

lemma map_update_same: "map f (xs[i := v]) = map f xs" if "f v = f (xs ! i)"
proof (cases "i < length xs")
  case True
  then show ?thesis using that by (simp add: map_update list_update_same_conv)
next
  case False
  then show ?thesis by (simp add: not_less list_update_beyond)
qed


lemma done_call_Some:
  "done_call p c = Some c' \<longleftrightarrow>
     chan_room (heap_chans c ! Done (heap_calls c ! p))
     \<and> c' = c\<lparr>heap_chans := (heap_chans c)[Done (heap_calls c ! p) :=
            (heap_chans c ! Done (heap_calls c ! p))
              \<lparr>chan_sent := chan_sent (heap_chans c ! Done (heap_calls c ! p)) @ [p]\<rparr>]\<rparr>"
  by (auto simp: done_call_def Let_def)

lemma done_call_None:
  "done_call p c = None \<longleftrightarrow> \<not> chan_room (heap_chans c ! Done (heap_calls c ! p))"
  by (simp add: done_call_def Let_def)

lemma done_call_frame:
  assumes "done_call p c = Some c'"
  shows "cc c' = cc c" "header c' = header c" "seq c' = seq c"
    "pending c' = pending c" "closing c' = closing c"
    "shutdown c' = shutdown c" "heap_calls c' = heap_calls c"
    "heap_mem c' = heap_mem c" "opt c' = opt c"
    "length (heap_chans c') = length (heap_chans c)"
    "map chan_cap (heap_chans c') = map chan_cap (heap_chans c)"
    "map chan_taken (heap_chans c') = map chan_taken (heap_chans c)"
  using assms by (simp_all add: done_call_Some map_update_same)

lemma set_Error_frame [simp]:
  "cc (set_Error p e c) = cc c" "header (set_Error p e c) = header c" "seq (set_Error p e c) = seq c"
  "pending (set_Error p e c) = pending c" "closing (set_Error p e c) = closing c"
  "shutdown (set_Error p e c) = shutdown c" "heap_chans (set_Error p e c) = heap_chans c"
  "heap_mem (set_Error p e c) = heap_mem c" "opt (set_Error p e c) = opt c"
  "length (heap_calls (set_Error p e c)) = length (heap_calls c)"
  "map Done (heap_calls (set_Error p e c)) = map Done (heap_calls c)"
  "map Reply (heap_calls (set_Error p e c)) = map Reply (heap_calls c)"
  by (simp_all add: set_Error_def map_update_same)



lemma registerCall_up:
  "\<not> closing c \<Longrightarrow> \<not> shutdown c \<Longrightarrow> p < length (heap_calls c) \<Longrightarrow>
     registerCall p c =
       (seq c, None,
        c\<lparr>heap_calls := (heap_calls c)[p := (heap_calls c ! p)\<lparr>call_Seq := seq c\<rparr>],
          pending := AList.update (seq c) p (pending c), seq := seq c + 1\<rparr>)"
  by (simp add: registerCall_def Let_def)

lemma registerCall_frame:
  assumes "registerCall p c = (sq, err, c')"
  shows "cc c' = cc c" "closing c' = closing c" "shutdown c' = shutdown c"
    "heap_chans c' = heap_chans c" "heap_mem c' = heap_mem c" "header c' = header c"
    "length (heap_calls c') = length (heap_calls c)"
    "map Done (heap_calls c') = map Done (heap_calls c)"
  using assms by (auto simp: registerCall_def Let_def map_update_same split: if_splits)

lemma removeCall_frame:
  assumes "removeCall sq c = (r, c')"
  shows "cc c' = cc c" "closing c' = closing c" "shutdown c' = shutdown c"
    "heap_chans c' = heap_chans c" "heap_mem c' = heap_mem c" "header c' = header c"
    "heap_calls c' = heap_calls c" "seq c' = seq c"
  using assms by (auto simp: removeCall_def)



lemma send_register_frame:
  assumes "send_register p c = (r, c')"
  shows "cc c' = cc c" "closing c' = closing c" "shutdown c' = shutdown c"
    "heap_chans c' = heap_chans c" "heap_mem c' = heap_mem c"
    "length (heap_calls c') = length (heap_calls c)"
    "map Done (heap_calls c') = map Done (heap_calls c)"
  using assms
  by (auto simp: send_register_def registerCall_def Let_def map_update_same
      split: if_splits prod.splits option.splits)

lemma send_write_frame:
  assumes "send_write p c = (r, c')"
  shows "closing c' = closing c" "shutdown c' = shutdown c" "heap_chans c' = heap_chans c"
    "heap_mem c' = heap_mem c" "heap_calls c' = heap_calls c" "pending c' = pending c"
    "seq c' = seq c" "header c' = header c"
  using assms by (auto simp: send_write_def split: prod.splits)

lemma send_failed_frame:
  assumes "send_failed sq err c = (r, c')"
  shows "cc c' = cc c" "closing c' = closing c" "shutdown c' = shutdown c"
    "heap_chans c' = heap_chans c" "heap_mem c' = heap_mem c" "seq c' = seq c"
    "length (heap_calls c') = length (heap_calls c)"
    "map Done (heap_calls c') = map Done (heap_calls c)"
    "pending c' = AList.delete sq (pending c)" "r = map_of (pending c) sq"
  using assms by (auto simp: send_failed_def removeCall_def split: option.splits)

lemma send_frame:
  assumes "send p c = Some c'"
  shows "length (heap_calls c') = length (heap_calls c)"
    "map Done (heap_calls c') = map Done (heap_calls c)"
    "length (heap_chans c') = length (heap_chans c)"
    "map chan_cap (heap_chans c') = map chan_cap (heap_chans c)"
    "closing c' = closing c" "shutdown c' = shutdown c"
proof -
  obtain r c1 where sr: "send_register p c = (r, c1)"
    by (cases "send_register p c")
  note f1 = send_register_frame [OF sr]
  have "length (heap_calls c') = length (heap_calls c)
    \<and> map Done (heap_calls c') = map Done (heap_calls c)
    \<and> length (heap_chans c') = length (heap_chans c)
    \<and> map chan_cap (heap_chans c') = map chan_cap (heap_chans c)
    \<and> closing c' = closing c \<and> shutdown c' = shutdown c"
  proof (cases r)
    case None
    with assms sr have "done_call p c1 = Some c'"
      by (simp add: send_def)
    from done_call_frame [OF this] f1 show ?thesis
      by simp
  next
    case (Some sq)
    obtain e c2 where sw: "send_write p c1 = (e, c2)"
      by (cases "send_write p c1")
    note f2 = send_write_frame [OF sw]
    show ?thesis
    proof (cases e)
      case None
      with assms sr Some sw have "c' = c2"
        by (simp add: send_def)
      with f1 f2 show ?thesis
        by simp
    next
      case e: (Some err)
      obtain q c3 where sf: "send_failed sq err c2 = (q, c3)"
        by (cases "send_failed sq err c2")
      note f3 = send_failed_frame [OF sf]
      show ?thesis
      proof (cases q)
        case None
        with assms sr Some sw e sf have "c' = c3"
          by (simp add: send_def)
        with f1 f2 f3 show ?thesis
          by simp
      next
        case q: (Some q')
        with assms sr Some sw e sf have "done_call q' c3 = Some c'"
          by (simp add: send_def)
        from done_call_frame [OF this] f1 f2 f3 show ?thesis
          by simp
      qed
    qed
  qed
  then show "length (heap_calls c') = length (heap_calls c)"
    "map Done (heap_calls c') = map Done (heap_calls c)"
    "length (heap_chans c') = length (heap_chans c)"
    "map chan_cap (heap_chans c') = map chan_cap (heap_chans c)"
    "closing c' = closing c" "shutdown c' = shutdown c"
    by simp_all
qed




lemma signals_set_Error [simp]: "signals (set_Error p e c) q = signals c q"
  by (simp add: signals_def)

lemma set_Error_Done [simp]: "Done (heap_calls (set_Error p e c) ! q) = Done (heap_calls c ! q)"
proof (cases "p < length (heap_calls c)")
  case True
  then show ?thesis by (simp add: set_Error_def nth_list_update)
next
  case False
  then show ?thesis by (simp add: set_Error_def not_less list_update_beyond)
qed

lemma set_Error_Reply [simp]: "Reply (heap_calls (set_Error p e c) ! q) = Reply (heap_calls c ! q)"
proof (cases "p < length (heap_calls c)")
  case True
  then show ?thesis by (simp add: set_Error_def nth_list_update)
next
  case False
  then show ?thesis by (simp add: set_Error_def not_less list_update_beyond)
qed


text \<open>The walk of \<open>terminateCalls\<close> over the table, from any client.\<close>

lemma terminate_range_Cons:
  "terminate_range err ((k, p) # xs) c = Some c' \<longleftrightarrow>
     (\<exists>c1. done_call p (set_Error p err c) = Some c1 \<and> terminate_range err xs c1 = Some c')"
  by (simp split: option.splits)








section \<open>Submission\<close>

lemma send_register_Some:
  assumes "send_register p c = (Some sq, c')"
  shows "map_of (pending c') sq = Some p"
  using assms
  by (auto simp: send_register_def registerCall_def Let_def update_Some_unfold
      split: if_splits)

lemma nth_Done_cong:
  "map Done xs = map Done ys \<Longrightarrow> p < length xs \<Longrightarrow> Done (ys ! p) = Done (xs ! p)"
proof -
  assume a: "map Done xs = map Done ys" and p: "p < length xs"
  from a have "length xs = length ys"
    by (rule map_eq_imp_length_eq)
  with a p show ?thesis
    by (metis nth_map)
qed

text \<open>
  \<open>send\<close> can only be left waiting in the send on the channel of its own call: after a
  failed write the call that \<open>removeCall\<close> finds under the sequence number is the one just
  registered.
\<close>

lemma send_None:
  assumes n: "send p c = None" and p: "p < length (heap_calls c)"
  shows "\<not> chan_room (heap_chans c ! Done (heap_calls c ! p))"
proof -
  obtain r c1 where sr: "send_register p c = (r, c1)"
    by (cases "send_register p c")
  note f1 = send_register_frame [OF sr]
  from f1(7) p have d1: "Done (heap_calls c1 ! p) = Done (heap_calls c ! p)"
    by (rule nth_Done_cong [OF sym])
  show ?thesis
  proof (cases r)
    case None
    with n sr have "done_call p c1 = None"
      by (simp add: send_def)
    with f1 d1 show ?thesis
      by (simp add: done_call_None)
  next
    case (Some sq)
    obtain e c2 where sw: "send_write p c1 = (e, c2)"
      by (cases "send_write p c1")
    note f2 = send_write_frame [OF sw]
    from n sr Some sw obtain err where e: "e = Some err"
      by (cases e) (simp_all add: send_def)
    obtain q c3 where sf: "send_failed sq err c2 = (q, c3)"
      by (cases "send_failed sq err c2")
    note f3 = send_failed_frame [OF sf]
    from send_register_Some [OF sr [unfolded Some]] f2 f3 have q: "q = Some p"
      by simp
    with n sr Some sw e sf have "done_call p c3 = None"
      by (simp add: send_def)
    moreover from f3(8) f2 f1(6) p have "Done (heap_calls c3 ! p) = Done (heap_calls c1 ! p)"
      by (intro nth_Done_cong [OF sym]) simp_all
    ultimately show ?thesis
      using f1 f2 f3 d1 by (simp add: done_call_None)
  qed
qed

text \<open>
  C8. \<open>Go\<close> with a nil completion channel makes a new channel of capacity 10 for the
  call, and returns: the one send it may have to make finds the new channel empty. With
  an unbuffered channel it panics, and nothing is allocated or sent. A buffered channel
  becomes the \<open>Done\<close> of the call as it is; \<open>Go\<close> then returns if that channel has room,
  and is otherwise left waiting if it has to signal the call.
\<close>

theorem Go_done_channel:
  "(\<exists>call c'. Go serviceMethod args reply None c = Some (Inr (call, c'))
       \<and> call = length (heap_calls c)
       \<and> Done (heap_calls c' ! call) = length (heap_chans c)
       \<and> length (heap_chans c') = Suc (length (heap_chans c))
       \<and> chan_cap (heap_chans c' ! length (heap_chans c)) = 10
       \<and> take (length (heap_chans c)) (map chan_cap (heap_chans c')) = map chan_cap (heap_chans c))
   \<and> (ch < length (heap_chans c) \<and> chan_cap (heap_chans c ! ch) = 0 \<longrightarrow>
         Go serviceMethod args reply (Some ch) c =
           Some (Inl (Panic ''rpc client: done channel is unbuffered'')))
   \<and> (ch < length (heap_chans c) \<and> chan_cap (heap_chans c ! ch) \<noteq> 0 \<longrightarrow>
         (\<forall>r. Go serviceMethod args reply (Some ch) c = Some r \<longrightarrow>
            (\<exists>call c'. r = Inr (call, c')
               \<and> call = length (heap_calls c)
               \<and> Done (heap_calls c' ! call) = ch
               \<and> map chan_cap (heap_chans c') = map chan_cap (heap_chans c)))
         \<and> (chan_room (heap_chans c ! ch) \<longrightarrow>
              (\<exists>call c'. Go serviceMethod args reply (Some ch) c = Some (Inr (call, c')))))"
proof (intro conjI impI allI)
  let ?new = "\<lparr>call_Seq = 0, call_ServiceMethod = serviceMethod, Args = args, Reply = reply,
               call_Error = None, Done = length (heap_chans c)\<rparr>"
  let ?c1 = "c\<lparr>heap_chans := heap_chans c @ [\<lparr>chan_cap = 10, chan_sent = [], chan_taken = 0\<rparr>],
              heap_calls := heap_calls c @ [?new]\<rparr>"
  let ?p = "length (heap_calls c)"
  have a: "Go_alloc serviceMethod args reply None c = Inr (?p, ?c1)"
    by (simp add: Go_alloc_def)
  have "chan_room (heap_chans ?c1 ! Done (heap_calls ?c1 ! ?p))"
    by (simp add: chan_room_def)
  with send_None [of ?p ?c1] obtain c' where s: "send ?p ?c1 = Some c'"
    by (cases "send ?p ?c1") auto
  with a have g: "Go serviceMethod args reply None c = Some (Inr (?p, c'))"
    by (simp add: Go_def)
  note f = send_frame [OF s]
  from f(2) have d': "Done (heap_calls c' ! ?p) = length (heap_chans c)"
    using nth_Done_cong [of "heap_calls ?c1" "heap_calls c'" ?p] by simp
  from f have k: "map chan_cap (heap_chans c') = map chan_cap (heap_chans c) @ [10]"
    by simp
  from f have l: "length (heap_chans c') = Suc (length (heap_chans c))"
    by simp
  from k l have "map chan_cap (heap_chans c') ! length (heap_chans c) = 10"
    by (simp add: nth_append)
  with l have k': "chan_cap (heap_chans c' ! length (heap_chans c)) = 10"
    by simp
  from g d' l k k' show "\<exists>call c'. Go serviceMethod args reply None c = Some (Inr (call, c'))
       \<and> call = length (heap_calls c)
       \<and> Done (heap_calls c' ! call) = length (heap_chans c)
       \<and> length (heap_chans c') = Suc (length (heap_chans c))
       \<and> chan_cap (heap_chans c' ! length (heap_chans c)) = 10
       \<and> take (length (heap_chans c)) (map chan_cap (heap_chans c')) = map chan_cap (heap_chans c)"
    by simp
next
  assume "ch < length (heap_chans c) \<and> chan_cap (heap_chans c ! ch) = 0"
  then show "Go serviceMethod args reply (Some ch) c =
      Some (Inl (Panic ''rpc client: done channel is unbuffered''))"
    by (simp add: Go_def Go_alloc_def)
next
  fix r
  assume a: "ch < length (heap_chans c) \<and> chan_cap (heap_chans c ! ch) \<noteq> 0"
    and g: "Go serviceMethod args reply (Some ch) c = Some r"
  let ?new = "\<lparr>call_Seq = 0, call_ServiceMethod = serviceMethod, Args = args, Reply = reply,
               call_Error = None, Done = ch\<rparr>"
  let ?c1 = "c\<lparr>heap_calls := heap_calls c @ [?new]\<rparr>"
  let ?p = "length (heap_calls c)"
  from a have al: "Go_alloc serviceMethod args reply (Some ch) c = Inr (?p, ?c1)"
    by (simp add: Go_alloc_def)
  with g obtain c' where s: "send ?p ?c1 = Some c'" and r: "r = Inr (?p, c')"
    by (auto simp: Go_def split: option.splits)
  note f = send_frame [OF s]
  from f(2) have d': "Done (heap_calls c' ! ?p) = ch"
    using nth_Done_cong [of "heap_calls ?c1" "heap_calls c'" ?p] by simp
  from f have k: "map chan_cap (heap_chans c') = map chan_cap (heap_chans c)"
    by simp
  from r d' k show "\<exists>call c'. r = Inr (call, c')
               \<and> call = length (heap_calls c)
               \<and> Done (heap_calls c' ! call) = ch
               \<and> map chan_cap (heap_chans c') = map chan_cap (heap_chans c)"
    by simp
next
  assume a: "ch < length (heap_chans c) \<and> chan_cap (heap_chans c ! ch) \<noteq> 0"
    and room: "chan_room (heap_chans c ! ch)"
  let ?new = "\<lparr>call_Seq = 0, call_ServiceMethod = serviceMethod, Args = args, Reply = reply,
               call_Error = None, Done = ch\<rparr>"
  let ?c1 = "c\<lparr>heap_calls := heap_calls c @ [?new]\<rparr>"
  let ?p = "length (heap_calls c)"
  from a have al: "Go_alloc serviceMethod args reply (Some ch) c = Inr (?p, ?c1)"
    by (simp add: Go_alloc_def)
  from room have "chan_room (heap_chans ?c1 ! Done (heap_calls ?c1 ! ?p))"
    by simp
  with send_None [of ?p ?c1] obtain c' where s: "send ?p ?c1 = Some c'"
    by (cases "send ?p ?c1") auto
  with al show "\<exists>call c'. Go serviceMethod args reply (Some ch) c = Some (Inr (call, c'))"
    by (simp add: Go_def)
qed

theorem Go_done_channel_witness:
  "0 < length (heap_chans client0) \<and> chan_cap (heap_chans client0 ! 0) = 0
   \<and> Go ''Foo.Sum'' (VInt 3) (Some 0) (Some 0) client0
       = Some (Inl (Panic ''rpc client: done channel is unbuffered''))
   \<and> 1 < length (heap_chans client0) \<and> chan_cap (heap_chans client0 ! 1) \<noteq> 0
   \<and> chan_room (heap_chans client0 ! 1)
   \<and> (\<exists>call c'. Go ''Foo.Sum'' (VInt 3) (Some 0) (Some 1) client0 = Some (Inr (call, c'))
         \<and> call = 0 \<and> Done (heap_calls c' ! call) = 1)
   \<and> (\<exists>call c'. Go ''Foo.Sum'' (VInt 3) (Some 0) None client0 = Some (Inr (call, c'))
         \<and> Done (heap_calls c' ! call) = 2 \<and> chan_cap (heap_chans c' ! 2) = 10)"
  using Go_done_channel [of "''Foo.Sum''" "VInt 3" "Some 0" client0 0]
    Go_done_channel [of "''Foo.Sum''" "VInt 3" "Some 0" client0 1]
  by (auto simp: client0_def newClientCodec_def numeral_2_eq_2 chan_room_def)






lemma distinct_snd_delete_notin:
  assumes "distinct (map fst xs)" "distinct (map snd xs)" "map_of xs k = Some p"
  shows "p \<notin> snd ` set (AList.delete k xs)"
proof
  assume "p \<in> snd ` set (AList.delete k xs)"
  then obtain k' where k': "(k', p) \<in> set xs" "k' \<noteq> k"
    by (auto simp: AList.delete_eq)
  from assms(3) have "(k, p) \<in> set xs"
    by (rule map_of_SomeD)
  with k' assms(2) have "(k', p) = (k, p)"
    by (intro inj_onD [of snd "set xs"]) (simp_all add: distinct_map)
  with k' show False
    by simp
qed


section \<open>The receive loop\<close>












section \<open>Termination of the connection\<close>









section \<open>Concurrent runs: a signal that waits\<close>

lemmas run_defs = new_system_def newClientCodec_def conn0_def
  Go_alloc_def send_register_def registerCall_def send_write_def Write_def
  ReadHeader_def removeCall_def receive_switch_def client_ReadBody_def ReadBody_def
  done_call_def set_Error_def chan_room_def chan_take_def Let_def

text \<open>
  C1 fails where it says that no registered call is left unsignalled when the
  connection terminates. \<open>call.done()\<close> is a plain send on the \<open>Done\<close> channel, which
  waits while the buffer of the channel is full, and \<open>Go\<close> takes any buffered channel,
  whatever the number of calls it is handed to. In the run \<open>run2_events\<close> the user hands
  one channel with one slot to two calls and receives nothing from it. Both calls are
  registered and written; the peer hangs up; \<open>terminateCalls\<close> signals the first call,
  which fills the channel, and is left in the \<open>call.done()\<close> of the second with \<open>sending\<close>
  and \<open>mu\<close> held. In that state the second call is in the table with its error set
  and has not been signalled; no step of the client's goroutines can be taken, nor a
  step of \<open>Go\<close> or \<open>Close\<close>, which wait for the mutexes; only a receive from the channel
  by its user can. The functions \<open>terminateCalls\<close> and \<open>receive\<close>, left alone on the
  client of that run, do not return.
\<close>

theorem terminateCalls_waits_on_full_channel:
  "run (\<lambda>f. f) (take 4 run2_events) run2_start
     = Some \<lparr>sys_client = client2, sys_recv = RecvHeader, sys_sender = SendIdle\<rparr>
   \<and> run (\<lambda>f. f) run2_events run2_start = Some run2_stuck
   \<and> sys_recv run2_stuck = RecvRangeSignal EOF 1 []
   \<and> map_of (pending (sys_client run2_stuck)) 2 = Some 1
   \<and> call_Error (heap_calls (sys_client run2_stuck) ! 1) = Some EOF
   \<and> signals (sys_client run2_stuck) 0 = 1
   \<and> signals (sys_client run2_stuck) 1 = 0
   \<and> \<not> chan_room (heap_chans (sys_client run2_stuck) ! Done (heap_calls (sys_client run2_stuck) ! 1))
   \<and> step sprintf EvRecvDone run2_stuck = None
   \<and> step sprintf EvReadHeader run2_stuck = None
   \<and> step sprintf EvRemove run2_stuck = None
   \<and> step sprintf EvSwitch run2_stuck = None
   \<and> step sprintf EvTerminate run2_stuck = None
   \<and> step sprintf (EvRange k) run2_stuck = None
   \<and> step sprintf EvWrite run2_stuck = None
   \<and> step sprintf EvWriteFailed run2_stuck = None
   \<and> step sprintf EvSendDone run2_stuck = None
   \<and> step sprintf (EvGo serviceMethod args reply d) run2_stuck = None
   \<and> step sprintf EvClose run2_stuck = None
   \<and> step sprintf (EvTake (Suc n)) run2_stuck = None
   \<and> step sprintf (EvTake 0) run2_stuck \<noteq> None
   \<and> terminateCalls EOF client2 = None
   \<and> receive (\<lambda>f. f) client2 = None"
proof -
  have r4: "run (\<lambda>f. f) (take 4 run2_events) run2_start
      = Some \<lparr>sys_client = client2, sys_recv = RecvHeader, sys_sender = SendIdle\<rparr>"
    by (simp add: run2_events_def run2_start_def client2_def run_defs)
  have r9: "run (\<lambda>f. f) run2_events run2_start = Some run2_stuck"
    by (simp add: run2_events_def run2_start_def client2_def run2_stuck_def run_defs)
  have p: "sys_recv run2_stuck = RecvRangeSignal EOF 1 []"
    "map_of (pending (sys_client run2_stuck)) 2 = Some 1"
    "call_Error (heap_calls (sys_client run2_stuck) ! 1) = Some EOF"
    "signals (sys_client run2_stuck) 0 = 1" "signals (sys_client run2_stuck) 1 = 0"
    "\<not> chan_room (heap_chans (sys_client run2_stuck) ! Done (heap_calls (sys_client run2_stuck) ! 1))"
    by (simp_all add: run2_stuck_def client2_def signals_def chan_room_def)
  have b: "step sprintf EvRecvDone run2_stuck = None"
    "step sprintf EvReadHeader run2_stuck = None"
    "step sprintf EvRemove run2_stuck = None"
    "step sprintf EvSwitch run2_stuck = None"
    "step sprintf EvTerminate run2_stuck = None"
    "step sprintf (EvRange k) run2_stuck = None"
    "step sprintf EvWrite run2_stuck = None"
    "step sprintf EvWriteFailed run2_stuck = None"
    "step sprintf EvSendDone run2_stuck = None"
    "step sprintf (EvGo serviceMethod args reply d) run2_stuck = None"
    "step sprintf EvClose run2_stuck = None"
    "step sprintf (EvTake (Suc n)) run2_stuck = None"
    "step sprintf (EvTake 0) run2_stuck \<noteq> None"
    by (simp_all add: run2_stuck_def client2_def done_call_def chan_room_def chan_take_def)
  have t: "terminateCalls EOF client2 = None"
    by (simp add: terminateCalls_def client2_def done_call_def set_Error_def chan_room_def)
  have "receive (\<lambda>f. f) client2 = None"
    by (subst receive.simps)
      (simp add: terminateCalls_def client2_def done_call_def set_Error_def chan_room_def
        ReadHeader_def conn0_def)
  with r4 r9 p b t show ?thesis
    by (simp only: simp_thms)
qed


section \<open>Submission after shutdown\<close>









end
